theory Spec2Isabelle
  imports
    Complex_Main
    "HOL-Library.Sublist"
    "HOL-Library.Char_ord"
    "HOL-Library.List_Lexorder"
    "HOL-Library.Product_Lexorder"
begin

section \<open>Python values used by the assistant\<close>

text \<open>
  The exceptions the modelled code can raise. \<open>ServiceError\<close> stands for whatever the
  remote mailbox client raises on a failed call (authentication, transport, HTTP status);
  \<open>DecodeError\<close> for a failure of \<^verbatim>\<open>base64.urlsafe_b64decode(data).decode('utf-8')\<close>.
\<close>

datatype py_error =
    ZeroDivisionError
  | AttributeError
  | KeyError
  | IndexError
  | ServiceError
  | DecodeError

text \<open>
  Strings are lists of characters. \<^verbatim>\<open>str.lower()\<close> is modelled on the ASCII letters;
  every other character is left as it is.
\<close>

definition lower_char :: "char \<Rightarrow> char" where
  "lower_char c =
     (if CHR ''A'' \<le> c \<and> c \<le> CHR ''Z'' then char_of (of_char c + (32::nat)) else c)"

definition lower :: "string \<Rightarrow> string" where
  "lower s = map lower_char s"

text \<open>Python's substring test \<^verbatim>\<open>k in t\<close> on strings.\<close>

fun py_in :: "string \<Rightarrow> string \<Rightarrow> bool" where
  "py_in k [] = (k = [])"
| "py_in k (c # cs) = (prefix k (c # cs) \<or> py_in k cs)"

text \<open>
  Python's slice \<^verbatim>\<open>xs[i:j]\<close> with integer bounds: a negative bound counts from the
  end, and both bounds are clamped to the list.
\<close>

definition py_slice :: "'a list \<Rightarrow> int \<Rightarrow> int \<Rightarrow> 'a list" where
  "py_slice xs i j =
     (let n = int (length xs);
          a = (if i < 0 then max 0 (n + i) else min i n);
          b = (if j < 0 then max 0 (n + j) else min j n)
      in take (nat (b - a)) (drop (nat a) xs))"

text \<open>\<^verbatim>\<open>range(n)\<close> for an integer \<open>n\<close>: empty when \<open>n \<le> 0\<close>.\<close>

definition py_range :: "int \<Rightarrow> int list" where
  "py_range n = map int [0 ..< nat n]"

text \<open>
  \<^verbatim>\<open>random.choice(xs)\<close>: the generator's draw is the parameter \<open>r\<close>; on an empty
  sequence the call raises IndexError.
\<close>

definition random_choice :: "nat \<Rightarrow> 'a list \<Rightarrow> py_error + 'a" where
  "random_choice r xs = (if xs = [] then Inl IndexError else Inr (xs ! (r mod length xs)))"

section \<open>Study advisor: the curriculum table\<close>

text \<open>\<^verbatim>\<open>StudyAssistant.study_topics\<close>: subject, then level, then the ordered topics.\<close>

definition study_topics :: "(string \<times> (string \<times> string list) list) list" where
  "study_topics =
    [(''nlp'',
       [(''beginner'',
           [''Text preprocessing'', ''Tokenization'', ''Stop words removal'',
            ''Stemming and Lemmatization'', ''Bag of Words'', ''TF-IDF'']),
        (''intermediate'',
           [''Word embeddings'', ''Word2Vec'', ''GloVe'', ''Sentiment analysis'',
            ''Named Entity Recognition'', ''Part-of-speech tagging'']),
        (''advanced'',
           [''BERT and Transformers'', ''GPT models'', ''Attention mechanism'',
            ''Sequence-to-sequence models'', ''Transfer learning in NLP''])]),
     (''python'',
       [(''beginner'',
           [''Variables and data types'', ''Control structures'', ''Functions'',
            ''Lists and dictionaries'', ''File handling'', ''Exception handling'']),
        (''intermediate'',
           [''Object-oriented programming'', ''Decorators'', ''Generators'',
            ''Regular expressions'', ''Working with APIs'', ''Database connections'']),
        (''advanced'',
           [''Metaclasses'', ''Async programming'', ''Performance optimization'',
            ''Design patterns'', ''Testing frameworks'', ''Package development''])]),
     (''machine_learning'',
       [(''beginner'',
           [''Supervised vs Unsupervised learning'', ''Linear regression'',
            ''Logistic regression'', ''Decision trees'', ''Cross-validation'']),
        (''intermediate'',
           [''Random forests'', ''SVM'', ''K-means clustering'', ''Neural networks'',
            ''Feature engineering'', ''Model evaluation metrics'']),
        (''advanced'',
           [''Deep learning'', ''Convolutional networks'', ''Recurrent networks'',
            ''Ensemble methods'', ''Hyperparameter tuning'', ''MLOps''])])]"

text \<open>
  \<^verbatim>\<open>self.study_topics.get(subject.lower(), {}).get(level, [])\<close>: the caller lower-cases
  the subject; an absent subject or level gives the empty list.
\<close>

definition topics_for :: "string \<Rightarrow> string \<Rightarrow> string list" where
  "topics_for subject_key level =
     (case map_of study_topics subject_key of
        None \<Rightarrow> []
      | Some levels \<Rightarrow> (case map_of levels level of None \<Rightarrow> [] | Some ts \<Rightarrow> ts))"

section \<open>Study advisor: \<^verbatim>\<open>create_study_plan\<close>\<close>

record week_entry =
  week :: int
  topics :: "(string \<times> string) list"
  estimated_hours :: rat

record study_plan =
  plan_subject :: string
  duration_weeks :: int
  hours_per_week :: int
  weekly_schedule :: "week_entry list"

text \<open>The flattened list of (topic, level) pairs built by the first loop.\<close>

definition plan_topics :: "string \<Rightarrow> (string \<times> string) list" where
  "plan_topics subj =
     concat (map (\<lambda>level. map (\<lambda>topic. (topic, level)) (topics_for (lower subj) level))
                 [''beginner'', ''intermediate'', ''advanced''])"

text \<open>
  \<^verbatim>\<open>topics_per_week = len(topics) // weeks if topics else 1\<close>: the floor division raises
  ZeroDivisionError when \<open>weeks = 0\<close> and the topic list is not empty.
\<close>

definition topics_per_week :: "(string \<times> string) list \<Rightarrow> int \<Rightarrow> py_error + int" where
  "topics_per_week tps weeks =
     (if tps \<noteq> [] then (if weeks = 0 then Inl ZeroDivisionError
                          else Inr (int (length tps) div weeks))
      else Inr 1)"

text \<open>
  \<^verbatim>\<open>hours_per_week / topics_per_week if topics_per_week > 0 else hours_per_week\<close>. The
  source computes in floating point; the model keeps the exact quotient. The plan's
  \<^verbatim>\<open>hours_per_topic\<close> entry, which is this value rounded to one decimal for display, is
  not part of the model.
\<close>

definition hours_per_topic :: "int \<Rightarrow> int \<Rightarrow> rat" where
  "hours_per_topic hpw tpw = (if tpw > 0 then of_int hpw / of_int tpw else of_int hpw)"

definition week_entry_for :: "(string \<times> string) list \<Rightarrow> int \<Rightarrow> rat \<Rightarrow> int \<Rightarrow> week_entry" where
  "week_entry_for tps tpw hpt wk =
     (let start_idx = wk * tpw;
          end_idx = min ((wk + 1) * tpw) (int (length tps));
          week_topics = py_slice tps start_idx end_idx
      in \<lparr>week = wk + 1, topics = week_topics,
          estimated_hours = of_nat (length week_topics) * hpt\<rparr>)"

definition create_study_plan :: "string \<Rightarrow> int \<Rightarrow> int \<Rightarrow> py_error + study_plan" where
  "create_study_plan subj hpw weeks =
     (let tps = plan_topics subj in
      case topics_per_week tps weeks of
        Inl e \<Rightarrow> Inl e
      | Inr tpw \<Rightarrow>
          Inr \<lparr>plan_subject = subj, duration_weeks = weeks, hours_per_week = hpw,
               weekly_schedule =
                 map (week_entry_for tps tpw (hours_per_topic hpw tpw)) (py_range weeks)\<rparr>)"

text \<open>The number of curriculum topics of a subject over the three levels.\<close>

definition curriculum_size :: "string \<Rightarrow> nat" where
  "curriculum_size subj =
     length (topics_for (lower subj) ''beginner'')
   + length (topics_for (lower subj) ''intermediate'')
   + length (topics_for (lower subj) ''advanced'')"

definition plan_topic_count :: "study_plan \<Rightarrow> nat" where
  "plan_topic_count p = sum_list (map (\<lambda>w. length (topics w)) (weekly_schedule p))"

section \<open>Persistence gateway\<close>

text \<open>
  The tables the claims touch, each a list of rows in rowid order. Timestamps are clock
  readings in seconds, dates are day numbers; every operation that lets the database or
  Python read the clock takes the reading as an argument. Columns that no statement of
  the repository ever writes keep their declared default in every row.
\<close>

type_synonym timestamp = nat

record email_row =
  e_id :: nat
  e_gmail_id :: string
  e_sender :: string
  e_subject :: string
  e_snippet :: string
  e_body :: "string option"
  e_received_date :: timestamp
  e_is_read :: bool
  e_is_important :: bool
  e_labels :: "string list option"
  e_attachments :: "string option"
  e_created_at :: timestamp

record notification_row =
  n_id :: nat
  n_type :: string
  n_title :: string
  n_message :: string
  n_priority :: string
  n_is_read :: bool
  n_scheduled_for :: "timestamp option"
  n_created_at :: timestamp
  n_action_required :: bool
  n_metadata :: "string option"

record study_session_row =
  s_id :: nat
  s_subject :: string
  s_topic :: string
  s_duration_minutes :: int
  s_study_type :: string
  s_session_date :: int
  s_created_at :: timestamp

record database =
  emails :: "email_row list"
  notifications :: "notification_row list"
  study_sessions :: "study_session_row list"

text \<open>\<^verbatim>\<open>init_database\<close> on a fresh file: every table exists and is empty.\<close>

definition init_database :: database where
  "init_database = \<lparr>emails = [], notifications = [], study_sessions = []\<rparr>"

text \<open>
  \<^verbatim>\<open>INTEGER PRIMARY KEY AUTOINCREMENT\<close>: one more than the largest rowid used so far.
  No statement of the repository deletes a row, so that is the largest rowid in the table.
\<close>

definition next_rowid :: "nat list \<Rightarrow> nat" where
  "next_rowid ids = Suc (foldr max ids 0)"

text \<open>
  \<^verbatim>\<open>add_email\<close>: \<^verbatim>\<open>INSERT OR IGNORE\<close> against the \<^verbatim>\<open>UNIQUE\<close> column
  \<^verbatim>\<open>gmail_id\<close>. The labels are stored as their JSON text, which the model keeps as
  the list itself; \<^verbatim>\<open>json.dumps(labels) if labels else None\<close> stores NULL for a missing
  or empty list. The one caller passes the remote message id, a string.
\<close>

definition labels_json :: "string list option \<Rightarrow> string list option" where
  "labels_json labels =
     (case labels of None \<Rightarrow> None | Some ls \<Rightarrow> (if ls = [] then None else Some ls))"

definition add_email ::
  "database \<Rightarrow> timestamp \<Rightarrow> string \<Rightarrow> string \<Rightarrow> string \<Rightarrow> string \<Rightarrow> string option
     \<Rightarrow> string list option \<Rightarrow> database" where
  "add_email db now gid sndr subj snip bdy labels =
     (if gid \<in> set (map e_gmail_id (emails db)) then db
      else db\<lparr>emails := emails db @
             [\<lparr>e_id = next_rowid (map e_id (emails db)), e_gmail_id = gid, e_sender = sndr,
               e_subject = subj, e_snippet = snip, e_body = bdy, e_received_date = now,
               e_is_read = False, e_is_important = False, e_labels = labels_json labels,
               e_attachments = None, e_created_at = now\<rparr>]\<rparr>)"

text \<open>
  \<^verbatim>\<open>create_notification\<close>: the insert names five columns; \<^verbatim>\<open>is_read\<close>,
  \<^verbatim>\<open>created_at\<close>, \<^verbatim>\<open>action_required\<close> and \<^verbatim>\<open>metadata\<close> take their defaults.
  Returns \<^verbatim>\<open>cursor.lastrowid\<close> and the new database.
\<close>

definition create_notification ::
  "database \<Rightarrow> timestamp \<Rightarrow> string \<Rightarrow> string \<Rightarrow> string \<Rightarrow> string \<Rightarrow> timestamp option
     \<Rightarrow> nat \<times> database" where
  "create_notification db now type title message priority scheduled_for =
     (let notification_id = next_rowid (map n_id (notifications db))
      in (notification_id,
          db\<lparr>notifications := notifications db @
             [\<lparr>n_id = notification_id, n_type = type, n_title = title, n_message = message,
               n_priority = priority, n_is_read = False, n_scheduled_for = scheduled_for,
               n_created_at = now, n_action_required = False, n_metadata = None\<rparr>]\<rparr>))"

text \<open>\<^verbatim>\<open>log_study_session\<close>: \<open>today\<close> is \<^verbatim>\<open>datetime.now().date()\<close>.\<close>

definition log_study_session ::
  "database \<Rightarrow> timestamp \<Rightarrow> int \<Rightarrow> string \<Rightarrow> string \<Rightarrow> int \<Rightarrow> string \<Rightarrow> nat \<times> database" where
  "log_study_session db now today subj topic duration_minutes study_type =
     (let session_id = next_rowid (map s_id (study_sessions db))
      in (session_id,
          db\<lparr>study_sessions := study_sessions db @
             [\<lparr>s_id = session_id, s_subject = subj, s_topic = topic,
               s_duration_minutes = duration_minutes, s_study_type = study_type,
               s_session_date = today, s_created_at = now\<rparr>]\<rparr>))"

text \<open>
  The two updates of the main menu:
  \<^verbatim>\<open>UPDATE notifications SET is_read = TRUE WHERE id = ?\<close> and
  \<^verbatim>\<open>UPDATE notifications SET is_read = TRUE\<close>.
\<close>

definition mark_notification_read :: "database \<Rightarrow> nat \<Rightarrow> database" where
  "mark_notification_read db i =
     db\<lparr>notifications :=
          map (\<lambda>n. if n_id n = i then n\<lparr>n_is_read := True\<rparr> else n) (notifications db)\<rparr>"

definition mark_all_notifications_read :: "database \<Rightarrow> database" where
  "mark_all_notifications_read db =
     db\<lparr>notifications := map (\<lambda>n. n\<lparr>n_is_read := True\<rparr>) (notifications db)\<rparr>"

text \<open>
  \<^verbatim>\<open>ORDER BY k DESC\<close> over rows scanned in rowid order: larger keys first. SQL leaves
  the order of rows with equal keys open; the model returns them in rowid order, and no
  property below rests on that choice. Text compares bytewise, shorter prefix first.
\<close>

definition order_by_desc :: "('a \<Rightarrow> 'k::linorder) \<Rightarrow> 'a list \<Rightarrow> 'a list" where
  "order_by_desc k rows = rev (sort_key k (rev rows))"

text \<open>
  \<^verbatim>\<open>get_pending_notifications\<close>:
  \<^verbatim>\<open>WHERE is_read = FALSE ORDER BY priority DESC, created_at DESC\<close>; the priority
  column is text.
\<close>

definition get_pending_notifications :: "database \<Rightarrow> notification_row list" where
  "get_pending_notifications db =
     order_by_desc (\<lambda>n. (n_priority n, n_created_at n))
       (filter (\<lambda>n. \<not> n_is_read n) (notifications db))"

text \<open>The states the operations above can produce from a fresh database.\<close>

inductive reachable :: "database \<Rightarrow> bool" where
  reachable_init: "reachable init_database"
| reachable_add_email:
    "reachable db \<Longrightarrow> reachable (add_email db now gid sndr subj snip bdy labels)"
| reachable_create_notification:
    "reachable db \<Longrightarrow>
       reachable (snd (create_notification db now type title message priority scheduled_for))"
| reachable_log_study_session:
    "reachable db \<Longrightarrow>
       reachable (snd (log_study_session db now today subj topic duration_minutes study_type))"
| reachable_mark_read: "reachable db \<Longrightarrow> reachable (mark_notification_read db i)"
| reachable_mark_all: "reachable db \<Longrightarrow> reachable (mark_all_notifications_read db)"

section \<open>Notification ranker\<close>

text \<open>
  \<^verbatim>\<open>NotificationManager.display_notifications\<close>: the result is the sequence of rows in
  the order they are printed; nothing is printed for an empty result.
  \<^verbatim>\<open>sorted\<close> is stable, and so is \<^const>\<open>sort_key\<close>.
\<close>

definition priority_order :: "(string \<times> nat) list" where
  "priority_order = [(''urgent'', 1), (''high'', 2), (''medium'', 3), (''low'', 4)]"

definition priority_rank :: "string \<Rightarrow> nat" where
  "priority_rank p = (case map_of priority_order p of None \<Rightarrow> 5 | Some r \<Rightarrow> r)"

definition display_notifications :: "database \<Rightarrow> notification_row list" where
  "display_notifications db =
     (let pending = get_pending_notifications db
      in if pending = [] then [] else sort_key (\<lambda>x. priority_rank (n_priority x)) pending)"

section \<open>Mailbox poller\<close>

text \<open>The dictionary \<^verbatim>\<open>email_info\<close> built for every fetched message.\<close>

record email_info =
  gmail_id :: string
  sender :: string
  subject :: string
  snippet :: string
  body :: string
  labels :: "string list"
  date :: string

text \<open>
  What the remote API returns, as far as the poller reads it. A key read with
  \<^verbatim>\<open>d[k]\<close> is an optional field, and reading it when absent raises KeyError; a key
  read with \<^verbatim>\<open>d.get(k, default)\<close> is an optional field with that default. A header is
  its name and its value.
\<close>

record message_part =
  part_mimeType :: "string option"
  part_data :: "string option"

record message_payload =
  pl_headers :: "(string \<times> string) list option"
  pl_parts :: "message_part list option"
  pl_mimeType :: "string option"
  pl_data :: "string option"

record gmail_message =
  msg_payload :: "message_payload option"
  msg_snippet :: "string option"
  msg_labelIds :: "string list option"

text \<open>
  The remote service: \<^verbatim>\<open>messages().list(userId, q, maxResults).execute()\<close> gives
  the ids under the key \<^verbatim>\<open>messages\<close> (the key may be absent) or raises;
  \<^verbatim>\<open>messages().get(userId, id).execute()\<close> gives a message or raises.
\<close>

record gmail_service =
  list_messages :: "string \<Rightarrow> nat \<Rightarrow> py_error + string list option"
  get_message :: "string \<Rightarrow> py_error + gmail_message"

record gmail_integrator =
  gi_db :: database
  gi_service :: "gmail_service option"

text \<open>\<^verbatim>\<open>next((h['value'] for h in headers if h['name'] == name), default)\<close>\<close>

definition header_value :: "(string \<times> string) list \<Rightarrow> string \<Rightarrow> string \<Rightarrow> string" where
  "header_value headers name dflt =
     (case map_of headers name of None \<Rightarrow> dflt | Some v \<Rightarrow> v)"

text \<open>
  \<^verbatim>\<open>extract_email_body\<close>; \<open>decode\<close> is
  \<^verbatim>\<open>base64.urlsafe_b64decode(data).decode('utf-8')\<close>, which may raise.
\<close>

fun first_plain_part :: "(string \<Rightarrow> py_error + string) \<Rightarrow> message_part list \<Rightarrow> py_error + string" where
  "first_plain_part decode [] = Inr []"
| "first_plain_part decode (part # parts) =
     (case part_mimeType part of
        None \<Rightarrow> Inl KeyError
      | Some mt \<Rightarrow>
          if mt = ''text/plain''
          then (case part_data part of None \<Rightarrow> Inl KeyError | Some d \<Rightarrow> decode d)
          else first_plain_part decode parts)"

definition extract_email_body ::
  "(string \<Rightarrow> py_error + string) \<Rightarrow> message_payload \<Rightarrow> py_error + string" where
  "extract_email_body decode payload =
     (case pl_parts payload of
        Some parts \<Rightarrow> first_plain_part decode parts
      | None \<Rightarrow>
          (case pl_mimeType payload of
             None \<Rightarrow> Inl KeyError
           | Some mt \<Rightarrow>
               if mt = ''text/plain''
               then (case pl_data payload of None \<Rightarrow> Inl KeyError | Some d \<Rightarrow> decode d)
               else Inr []))"

text \<open>
  One iteration of the loop of \<^verbatim>\<open>fetch_recent_emails\<close> up to the database call: the
  dictionary that is appended to the result, and the extracted body, which is what the
  call to \<^verbatim>\<open>add_email\<close> receives as \<^verbatim>\<open>body\<close>.
\<close>

definition parse_message ::
  "(string \<Rightarrow> py_error + string) \<Rightarrow> string \<Rightarrow> gmail_message \<Rightarrow> py_error + email_info \<times> string" where
  "parse_message decode mid msg =
     (case msg_payload msg of
        None \<Rightarrow> Inl KeyError
      | Some payload \<Rightarrow>
          let headers = (case pl_headers payload of None \<Rightarrow> [] | Some hs \<Rightarrow> hs);
              sndr = header_value headers ''From'' ''Unknown'';
              subj = header_value headers ''Subject'' ''No Subject'';
              date_str = header_value headers ''Date'' []
          in case extract_email_body decode payload of
               Inl e \<Rightarrow> Inl e
             | Inr bdy \<Rightarrow>
                 let snip = (case msg_snippet msg of None \<Rightarrow> [] | Some t \<Rightarrow> t);
                     lbls = (case msg_labelIds msg of None \<Rightarrow> [] | Some ls \<Rightarrow> ls)
                 in Inr (\<lparr>gmail_id = mid, sender = sndr, subject = subj, snippet = snip,
                          body = (if bdy \<noteq> [] then take 1000 bdy else snip),
                          labels = lbls, date = date_str\<rparr>, bdy))"

text \<open>
  The loop over the listed messages. \<open>clk i\<close> is the clock reading at the insert of the
  \<open>i\<close>-th iteration. An exception leaves the loop with the rows stored so far, since
  every \<^verbatim>\<open>add_email\<close> commits.
\<close>

fun process_messages ::
  "gmail_service \<Rightarrow> (string \<Rightarrow> py_error + string) \<Rightarrow> (nat \<Rightarrow> timestamp) \<Rightarrow> nat \<Rightarrow> database
     \<Rightarrow> email_info list \<Rightarrow> string list \<Rightarrow> (py_error + email_info list) \<times> database" where
  "process_messages svc decode clk i db email_data [] = (Inr email_data, db)"
| "process_messages svc decode clk i db email_data (mid # mids) =
     (case get_message svc mid of
        Inl e \<Rightarrow> (Inl e, db)
      | Inr msg \<Rightarrow>
          (case parse_message decode mid msg of
             Inl e \<Rightarrow> (Inl e, db)
           | Inr (info, bdy) \<Rightarrow>
               process_messages svc decode clk (Suc i)
                 (add_email db (clk i) mid (sender info) (subject info) (snippet info)
                    (Some bdy) (Some (labels info)))
                 (email_data @ [info]) mids))"

text \<open>The body of the \<^verbatim>\<open>try\<close> block: \<open>Inl\<close> is an exception leaving it.\<close>

definition fetch_try ::
  "gmail_service \<Rightarrow> (string \<Rightarrow> py_error + string) \<Rightarrow> (nat \<Rightarrow> timestamp) \<Rightarrow> database
     \<Rightarrow> nat \<Rightarrow> string \<Rightarrow> (py_error + email_info list) \<times> database" where
  "fetch_try svc decode clk db max_results query =
     (case list_messages svc query max_results of
        Inl e \<Rightarrow> (Inl e, db)
      | Inr results \<Rightarrow>
          let messages = (case results of None \<Rightarrow> [] | Some ms \<Rightarrow> ms)
          in process_messages svc decode clk 0 db [] messages)"

text \<open>
  \<^verbatim>\<open>fetch_recent_emails\<close>. \<open>setup_result\<close> is the outcome of \<^verbatim>\<open>setup_gmail_api\<close>, which
  catches its own exceptions: the connected service, or \<open>None\<close> when it returns False.
  \<open>connect_service\<close> is the guard \<^verbatim>\<open>if not self.service: if not self.setup_gmail_api()\<close>:
  the service already held, else the one that call establishes.
  \<^verbatim>\<open>except Exception\<close> turns any exception of the block into the empty list.
\<close>

definition connect_service :: "gmail_integrator \<Rightarrow> gmail_service option \<Rightarrow> gmail_service option" where
  "connect_service gi setup_result = (case gi_service gi of Some svc \<Rightarrow> Some svc | None \<Rightarrow> setup_result)"

definition fetch_recent_emails ::
  "gmail_integrator \<Rightarrow> gmail_service option \<Rightarrow> (string \<Rightarrow> py_error + string)
     \<Rightarrow> (nat \<Rightarrow> timestamp) \<Rightarrow> nat \<Rightarrow> string \<Rightarrow> email_info list \<times> gmail_integrator" where
  "fetch_recent_emails gi setup_result decode clk max_results query =
     (case connect_service gi setup_result of
        None \<Rightarrow> ([], gi)
      | Some svc \<Rightarrow>
          (case fetch_try svc decode clk (gi_db gi) max_results query of
             (Inl e, db') \<Rightarrow> ([], gi\<lparr>gi_db := db', gi_service := Some svc\<rparr>)
           | (Inr email_data, db') \<Rightarrow>
               (email_data, gi\<lparr>gi_db := db', gi_service := Some svc\<rparr>)))"

section \<open>Notification ranker: classification of emails\<close>

definition important_keywords :: "string list" where
  "important_keywords =
     [''urgent'', ''important'', ''asap'', ''deadline'', ''meeting'',
      ''interview'', ''project'', ''submit'', ''payment'', ''invoice'']"

definition important_domains :: "string list" where
  "important_domains = [''work.com'', ''university.edu'', ''bank.com'']"

text \<open>\<^verbatim>\<open>(email['subject'] + ' ' + email['snippet']).lower()\<close>\<close>

definition text_to_check :: "email_info \<Rightarrow> string" where
  "text_to_check email = lower (subject email @ '' '' @ snippet email)"

text \<open>
  \<^verbatim>\<open>email['sender'].split('@')[-1] if '@' in email['sender'] else ''\<close>: the text after
  the last \<^verbatim>\<open>@\<close>.
\<close>

definition sender_domain :: "string \<Rightarrow> string" where
  "sender_domain s =
     (if CHR ''@'' \<in> set s then rev (takeWhile (\<lambda>c. c \<noteq> CHR ''@'') (rev s)) else [])"

definition keyword_match :: "email_info \<Rightarrow> bool" where
  "keyword_match email = list_ex (\<lambda>keyword. py_in keyword (text_to_check email)) important_keywords"

definition domain_match :: "email_info \<Rightarrow> bool" where
  "domain_match email =
     list_ex (\<lambda>domain. py_in domain (sender_domain (sender email))) important_domains"

text \<open>
  The two local variables at the end of one iteration of
  \<^verbatim>\<open>analyze_emails_for_notifications\<close>.
\<close>

definition email_priority :: "email_info \<Rightarrow> string" where
  "email_priority email =
     (let priority = ''medium'';
          priority = (if keyword_match email then ''high'' else priority);
          priority = (if domain_match email then ''high'' else priority)
      in priority)"

definition email_action_required :: "email_info \<Rightarrow> bool" where
  "email_action_required email = (if keyword_match email then True else False)"

text \<open>
  The notification of one email. The call passes \<^verbatim>\<open>type\<close>, \<^verbatim>\<open>title\<close>,
  \<^verbatim>\<open>message\<close> and \<^verbatim>\<open>priority\<close>; the local \<^verbatim>\<open>action_required\<close> is not an argument.
\<close>

definition notify_email :: "database \<Rightarrow> timestamp \<Rightarrow> email_info \<Rightarrow> database" where
  "notify_email db now email =
     snd (create_notification db now ''email''
            (''New email: '' @ take 50 (subject email) @ ''...'')
            (''From: '' @ sender email @ [CHR 0x0A] @ take 100 (snippet email) @ ''...'')
            (email_priority email) None)"

fun analyze_loop :: "(nat \<Rightarrow> timestamp) \<Rightarrow> nat \<Rightarrow> database \<Rightarrow> email_info list \<Rightarrow> database" where
  "analyze_loop clk i db [] = db"
| "analyze_loop clk i db (email # rest) = analyze_loop clk (Suc i) (notify_email db (clk i) email) rest"

definition analyze_emails_for_notifications ::
  "database \<Rightarrow> (nat \<Rightarrow> timestamp) \<Rightarrow> email_info list \<Rightarrow> database" where
  "analyze_emails_for_notifications db clk emails_in = analyze_loop clk 0 db emails_in"

section \<open>Study advisor: \<^verbatim>\<open>suggest_study_topic\<close>\<close>

text \<open>
  The query of \<^verbatim>\<open>suggest_study_topic\<close>:
  \<^verbatim>\<open>SELECT topic FROM study_sessions WHERE subject = ? AND session_date >= ?
  ORDER BY session_date DESC LIMIT 5\<close>, with the subject as passed and the date
  seven days before \<open>today\<close>.
\<close>

definition recent_topics :: "database \<Rightarrow> string \<Rightarrow> int \<Rightarrow> string list" where
  "recent_topics db subj today =
     map s_topic
       (take 5 (order_by_desc s_session_date
          (filter (\<lambda>s. s_subject s = subj \<and> s_session_date s \<ge> today - 7) (study_sessions db))))"

text \<open>
  The connection is opened with \<^verbatim>\<open>self.db.db.connect(self.db.db_path)\<close>.
  \<open>has_db_attr\<close> tells whether the object given to the constructor has an attribute
  \<^verbatim>\<open>db\<close> that provides \<^verbatim>\<open>connect\<close>; reading a missing attribute raises
  AttributeError. The class \<^verbatim>\<open>PersonalAssistantDB\<close> of the repository defines no such
  attribute. \<open>r\<close> is the draw of the random generator.
\<close>

definition suggest_study_topic ::
  "bool \<Rightarrow> database \<Rightarrow> int \<Rightarrow> nat \<Rightarrow> string \<Rightarrow> string \<Rightarrow> py_error + string" where
  "suggest_study_topic has_db_attr db today r subj level =
     (if \<not> has_db_attr then Inl AttributeError
      else
        let recent = recent_topics db subj today;
            available_topics = topics_for (lower subj) level
        in if available_topics = []
           then Inr (''No topics available for '' @ subj @ '' at '' @ level @ '' level'')
           else
             let unstudied_topics = filter (\<lambda>topic. topic \<notin> set recent) available_topics
             in if unstudied_topics = []
                then (case random_choice r recent of
                        Inl e \<Rightarrow> Inl e
                      | Inr t \<Rightarrow> Inr (''Consider reviewing: '' @ t))
                else random_choice r unstudied_topics)"

section \<open>Properties of the study plan\<close>

lemma length_plan_topics: "length (plan_topics s) = curriculum_size s"
  by (simp add: plan_topics_def curriculum_size_def)

lemma length_py_slice:
  assumes "0 \<le> a" "a \<le> b" "b \<le> int (length xs)"
  shows "length (py_slice xs a b) = nat (b - a)"
proof -
  have "nat (b - a) \<le> length xs - nat a" using assms by linarith
  then show ?thesis using assms by (simp add: py_slice_def Let_def min_def)
qed

lemma week_topics_length:
  assumes "0 \<le> tpw" "0 \<le> wk" "(wk + 1) * tpw \<le> int (length tps)"
  shows "length (topics (week_entry_for tps tpw hpt wk)) = nat tpw"
proof -
  have a: "wk * tpw \<le> (wk + 1) * tpw" using assms by (simp add: algebra_simps)
  have b: "0 \<le> wk * tpw" using assms by simp
  have c: "(wk + 1) * tpw - wk * tpw = tpw" by (simp add: algebra_simps)
  have "length (py_slice tps (wk * tpw) ((wk + 1) * tpw)) = nat ((wk + 1) * tpw - wk * tpw)"
    by (rule length_py_slice[OF b a assms(3)])
  then show ?thesis
    using assms c by (simp add: week_entry_for_def Let_def min_def)
qed

lemma sum_weeks:
  assumes "0 < weeks" "tpw = int (length tps) div weeks"
  shows "sum_list (map (\<lambda>w. length (topics w)) (map (week_entry_for tps tpw hpt) (py_range weeks))) = nat weeks * nat tpw"
proof -
  have tp: "0 \<le> tpw" using assms by (simp add: pos_imp_zdiv_nonneg_iff)
  have "weeks * (int (length tps) div weeks) + int (length tps) mod weeks = int (length tps)"
    by (rule mult_div_mod_eq)
  moreover have "0 \<le> int (length tps) mod weeks" using assms(1) by simp
  ultimately have "weeks * (int (length tps) div weeks) \<le> int (length tps)" by linarith
  then have bound: "weeks * tpw \<le> int (length tps)" using assms(2) by simp
  have each: "length (topics (week_entry_for tps tpw hpt wk)) = nat tpw"
    if "wk \<in> set (py_range weeks)" for wk
  proof -
    from that have w: "0 \<le> wk" "wk + 1 \<le> weeks" by (auto simp: py_range_def)
    then have "(wk + 1) * tpw \<le> weeks * tpw" using tp by (simp add: mult_right_mono)
    with bound have "(wk + 1) * tpw \<le> int (length tps)" by linarith
    with tp w show ?thesis by (simp add: week_topics_length)
  qed
  have "map (\<lambda>w. length (topics w)) (map (week_entry_for tps tpw hpt) (py_range weeks))
        = map (\<lambda>wk. length (topics (week_entry_for tps tpw hpt wk))) (py_range weeks)"
    by (simp add: comp_def)
  also have "\<dots> = map (\<lambda>wk. nat tpw) (py_range weeks)"
    using each by (simp only: map_eq_conv) blast
  finally have eq: "map (\<lambda>w. length (topics w))
                      (map (week_entry_for tps tpw hpt) (py_range weeks))
                    = map (\<lambda>wk. nat tpw) (py_range weeks)" .
  have "sum_list (map (\<lambda>w. length (topics w))
                   (map (week_entry_for tps tpw hpt) (py_range weeks)))
                = sum_list (map (\<lambda>wk. nat tpw) (py_range weeks))"
    by (simp only: eq)
  also have "\<dots> = length (py_range weeks) * nat tpw" by (simp add: sum_list_triv)
  also have "\<dots> = nat weeks * nat tpw" by (simp add: py_range_def)
  finally show ?thesis .
qed

lemma plan_count_bound:
  assumes "0 < weeks" "tpw = int (length tps) div weeks"
  shows "nat weeks * nat tpw \<le> length tps"
proof -
  have tp: "0 \<le> tpw" using assms by (simp add: pos_imp_zdiv_nonneg_iff)
  have "weeks * (int (length tps) div weeks) + int (length tps) mod weeks = int (length tps)"
    by (rule mult_div_mod_eq)
  moreover have "0 \<le> int (length tps) mod weeks" using assms(1) by simp
  ultimately have "weeks * (int (length tps) div weeks) \<le> int (length tps)" by linarith
  then have "weeks * tpw \<le> int (length tps)" using assms(2) by simp
  moreover have "int (nat weeks * nat tpw) = weeks * tpw" using assms(1) tp by simp
  ultimately show ?thesis by linarith
qed

text \<open>
  Claim C6. With five hours per week and four weeks, \<^verbatim>\<open>create_study_plan\<close> returns
  a plan with exactly four weekly entries, for every subject (in the curriculum or not).
  Each week holds the integer quotient of the subject's topic count by four, so the
  topic counts of the four entries sum to at most the number of curriculum topics of the
  subject over the three levels; the remainder of the division is in no week.
\<close>

theorem create_study_plan_four_weeks:
  "\<exists>p. create_study_plan subj 5 4 = Inr p
       \<and> length (weekly_schedule p) = 4
       \<and> plan_topic_count p = 4 * (curriculum_size subj div 4)
       \<and> plan_topic_count p \<le> curriculum_size subj"
proof (cases "plan_topics subj = []")
  case True
  then have "curriculum_size subj = 0" using length_plan_topics[of subj] by simp
  with True show ?thesis
    by (simp add: create_study_plan_def topics_per_week_def plan_topic_count_def py_range_def
        week_entry_for_def py_slice_def comp_def)
next
  case False
  define tpw where "tpw = int (length (plan_topics subj)) div 4"
  have s: "sum_list (map (\<lambda>w. length (topics w))
             (map (week_entry_for (plan_topics subj) tpw (hours_per_topic 5 tpw)) (py_range 4)))
           = nat 4 * nat tpw"
    by (rule sum_weeks) (simp_all add: tpw_def)
  have n: "nat tpw = curriculum_size subj div 4"
    by (simp add: tpw_def length_plan_topics nat_div_distrib)
  from False s n show ?thesis
    by (simp add: create_study_plan_def topics_per_week_def plan_topic_count_def tpw_def
        py_range_def Let_def)
qed



section \<open>Properties of the persistence gateway\<close>

lemma le_foldr_max: "x \<in> set ids \<Longrightarrow> x \<le> foldr max ids (0::nat)"
  by (induction ids) auto

lemma next_rowid_fresh: "next_rowid ids \<notin> set ids"
proof
  assume "next_rowid ids \<in> set ids"
  then have "next_rowid ids \<le> foldr max ids 0" by (rule le_foldr_max)
  then show False by (simp add: next_rowid_def)
qed











lemma notif_ids_mark_read:
  "map n_id (notifications (mark_notification_read db i)) = map n_id (notifications db)"
  by (simp add: mark_notification_read_def comp_def if_distrib cong: if_cong)

lemma notif_ids_mark_all:
  "map n_id (notifications (mark_all_notifications_read db)) = map n_id (notifications db)"
  by (simp add: mark_all_notifications_read_def comp_def)

lemma notifications_add_email:
  "notifications (add_email db now gid sndr subj snip bdy lbls) = notifications db"
  by (simp add: add_email_def)

lemma notifications_log_study_session:
  "notifications (snd (log_study_session db now today subj topic d st)) = notifications db"
  by (simp add: log_study_session_def Let_def)

lemma distinct_ids_create_notification:
  "distinct (map n_id (notifications db)) \<Longrightarrow>
   distinct (map n_id (notifications (snd (create_notification db now ty ti m p sf))))"
  using next_rowid_fresh[of "map n_id (notifications db)"]
  by (simp add: create_notification_def Let_def)

lemma reachable_distinct_notification_id:
  "reachable db \<Longrightarrow> distinct (map n_id (notifications db))"
proof (induction rule: reachable.induct)
  case reachable_init
  show ?case by (simp add: init_database_def)
next
  case (reachable_create_notification db now type title message priority scheduled_for)
  from reachable_create_notification.IH show ?case by (rule distinct_ids_create_notification)
qed (simp_all add: notifications_add_email notifications_log_study_session
      notif_ids_mark_read notif_ids_mark_all)

lemma mark_notification_read_twice:
  "mark_notification_read (mark_notification_read db i) i = mark_notification_read db i"
  by (simp add: mark_notification_read_def comp_def)

lemma filter_map_update:
  "distinct (map f xs) \<Longrightarrow> x \<in> set xs \<Longrightarrow> (\<And>y. f (g y) = f y) \<Longrightarrow>
   filter (\<lambda>y. f y = f x) (map (\<lambda>y. if f y = f x then g y else y) xs) = [g x]"
proof (induction xs)
  case Nil
  then show ?case by simp
next
  case (Cons a xs)
  show ?case
  proof (cases "a = x")
    case True
    have "f x \<notin> f ` set xs" using Cons.prems(1) True by simp
    then have "\<forall>y\<in>set xs. f y \<noteq> f x" by (metis imageI)
    then have "filter (\<lambda>y. f y = f x) (map (\<lambda>y. if f y = f x then g y else y) xs) = []"
      by (auto simp: filter_empty_conv)
    with True Cons.prems(3) show ?thesis by simp
  next
    case False
    with Cons.prems have x: "x \<in> set xs" by simp
    with Cons.prems(1) have "f a \<noteq> f x" by auto
    with Cons x show ?thesis by simp
  qed
qed

text \<open>
  Claim C9. Marking a notification read is idempotent. In every reachable state and for
  every stored notification, marking its id read twice gives the same database as
  marking it once; the database then holds exactly one row with that id, which is the
  original row with \<^verbatim>\<open>is_read\<close> set and every other field unchanged; no row is added
  or removed and the other tables are untouched.
\<close>

theorem mark_notification_read_idempotent:
  assumes "reachable db" and "n \<in> set (notifications db)"
  shows "mark_notification_read (mark_notification_read db (n_id n)) (n_id n)
           = mark_notification_read db (n_id n)
         \<and> filter (\<lambda>x. n_id x = n_id n)
              (notifications (mark_notification_read (mark_notification_read db (n_id n)) (n_id n)))
           = [n\<lparr>n_is_read := True\<rparr>]
         \<and> emails (mark_notification_read db (n_id n)) = emails db
         \<and> study_sessions (mark_notification_read db (n_id n)) = study_sessions db
         \<and> length (notifications (mark_notification_read db (n_id n))) = length (notifications db)"
proof -
  have d: "distinct (map n_id (notifications db))"
    using assms(1) by (rule reachable_distinct_notification_id)
  have "filter (\<lambda>x. n_id x = n_id n)
          (map (\<lambda>y. if n_id y = n_id n then y\<lparr>n_is_read := True\<rparr> else y) (notifications db))
        = [n\<lparr>n_is_read := True\<rparr>]"
    using d assms(2) by (rule filter_map_update) simp
  then show ?thesis
    by (simp add: mark_notification_read_twice) (simp add: mark_notification_read_def)
qed

theorem mark_notification_read_idempotent_witness:
  "reachable (snd (create_notification init_database 7 ''email'' ''T'' ''M'' ''high'' None))
   \<and> notifications (mark_notification_read (mark_notification_read
         (snd (create_notification init_database 7 ''email'' ''T'' ''M'' ''high'' None)) 1) 1)
       = [\<lparr>n_id = 1, n_type = ''email'', n_title = ''T'', n_message = ''M'',
           n_priority = ''high'', n_is_read = True, n_scheduled_for = None,
           n_created_at = 7, n_action_required = False, n_metadata = None\<rparr>]"
proof -
  let ?db = "snd (create_notification init_database 7 ''email'' ''T'' ''M'' ''high'' None)"
  let ?n = "\<lparr>n_id = 1, n_type = ''email'', n_title = ''T'', n_message = ''M'',
             n_priority = ''high'', n_is_read = False, n_scheduled_for = None,
             n_created_at = 7, n_action_required = False, n_metadata = None\<rparr>"
  have r: "reachable ?db" by (rule reachable_create_notification[OF reachable_init])
  have e: "notifications ?db = [?n]"
    by (simp add: create_notification_def init_database_def next_rowid_def)
  then have m: "?n \<in> set (notifications ?db)" by simp
  have "mark_notification_read (mark_notification_read ?db (n_id ?n)) (n_id ?n)
        = mark_notification_read ?db (n_id ?n)"
    using mark_notification_read_idempotent[OF r m] by blast
  then have "mark_notification_read (mark_notification_read ?db 1) 1 = mark_notification_read ?db 1"
    by simp
  moreover have "notifications (mark_notification_read ?db 1) = [?n\<lparr>n_is_read := True\<rparr>]"
    by (simp add: mark_notification_read_def e)
  ultimately show ?thesis using r by simp
qed

section \<open>Properties of the classification\<close>


lemma lower_append: "lower (a @ b) = lower a @ lower b"
  by (simp add: lower_def)











section \<open>Properties of the email notifications\<close>

lemma notifications_notify_email:
  "\<exists>n. notifications (notify_email db now e) = notifications db @ [n]
       \<and> n_type n = ''email'' \<and> n_priority n = email_priority e \<and> \<not> n_action_required n"
  by (simp add: notify_email_def create_notification_def Let_def)

lemma analyze_loop_notifications:
  "\<exists>new. notifications (analyze_loop clk i db es) = notifications db @ new
         \<and> map (\<lambda>n. (n_type n, n_priority n, n_action_required n)) new
             = map (\<lambda>e. (''email'', email_priority e, False)) es"
proof (induction es arbitrary: i db)
  case Nil
  show ?case by simp
next
  case (Cons e es)
  obtain n where n: "notifications (notify_email db (clk i) e) = notifications db @ [n]"
      "n_type n = ''email''" "n_priority n = email_priority e" "\<not> n_action_required n"
    using notifications_notify_email by blast
  obtain new where new:
      "notifications (analyze_loop clk (Suc i) (notify_email db (clk i) e) es)
         = notifications (notify_email db (clk i) e) @ new"
      "map (\<lambda>n. (n_type n, n_priority n, n_action_required n)) new
         = map (\<lambda>e. (''email'', email_priority e, False)) es"
    using Cons.IH by blast
  have "notifications (analyze_loop clk i db (e # es)) = notifications db @ (n # new)"
    using n(1) new(1) by simp
  moreover have "map (\<lambda>n. (n_type n, n_priority n, n_action_required n)) (n # new)
                 = map (\<lambda>e. (''email'', email_priority e, False)) (e # es)"
    using n new(2) by simp
  ultimately show ?case by blast
qed

text \<open>
  Claim C10. \<^verbatim>\<open>analyze_emails_for_notifications\<close> keeps the stored notifications and
  appends one notification per analysed email, in order, of type \<^verbatim>\<open>email\<close>, with the
  priority computed for that email and with \<^verbatim>\<open>action_required\<close> false. That holds also
  for an email with a keyword match, whose priority is \<^verbatim>\<open>high\<close> and whose local
  \<^verbatim>\<open>action_required\<close> is true: the local is not passed to the insert, and the column
  takes its default.
\<close>

theorem analyze_emails_action_required_false:
  "take (length (notifications db)) (notifications (analyze_emails_for_notifications db clk es))
     = notifications db
   \<and> map (\<lambda>n. (n_type n, n_priority n, n_action_required n))
       (drop (length (notifications db))
          (notifications (analyze_emails_for_notifications db clk es)))
     = map (\<lambda>e. (''email'', email_priority e, False)) es
   \<and> (\<forall>e\<in>set es. keyword_match e \<longrightarrow> email_priority e = ''high'' \<and> email_action_required e)"
proof -
  obtain new where new:
      "notifications (analyze_loop clk 0 db es) = notifications db @ new"
      "map (\<lambda>n. (n_type n, n_priority n, n_action_required n)) new
         = map (\<lambda>e. (''email'', email_priority e, False)) es"
    using analyze_loop_notifications by blast
  have "\<forall>e\<in>set es. keyword_match e \<longrightarrow> email_priority e = ''high'' \<and> email_action_required e"
    by (simp add: email_priority_def email_action_required_def)
  with new show ?thesis by (simp add: analyze_emails_for_notifications_def)
qed

theorem analyze_emails_action_required_false_witness:
  "keyword_match \<lparr>gmail_id = ''m7'', sender = ''Ann <ann@shop.net>'', subject = ''Invoice 42'',
        snippet = ''Payment due'', body = ''Payment due Friday'', labels = [''INBOX''],
        date = ''Tue''\<rparr>
   \<and> email_action_required \<lparr>gmail_id = ''m7'', sender = ''Ann <ann@shop.net>'',
        subject = ''Invoice 42'', snippet = ''Payment due'', body = ''Payment due Friday'',
        labels = [''INBOX''], date = ''Tue''\<rparr>
   \<and> map (\<lambda>n. (n_type n, n_priority n, n_action_required n))
       (notifications (analyze_emails_for_notifications init_database (\<lambda>i. 100 + i)
          [\<lparr>gmail_id = ''m7'', sender = ''Ann <ann@shop.net>'', subject = ''Invoice 42'',
            snippet = ''Payment due'', body = ''Payment due Friday'', labels = [''INBOX''],
            date = ''Tue''\<rparr>]))
     = [(''email'', ''high'', False)]"
proof -
  let ?e = "\<lparr>gmail_id = ''m7'', sender = ''Ann <ann@shop.net>'', subject = ''Invoice 42'',
        snippet = ''Payment due'', body = ''Payment due Friday'', labels = [''INBOX''],
        date = ''Tue''\<rparr>"
  have k: "keyword_match ?e" by code_simp
  from analyze_emails_action_required_false[of init_database "\<lambda>i. 100 + i" "[?e]"] k
  show ?thesis by (simp add: init_database_def)
qed

section \<open>Properties of the mailbox poller\<close>

lemma process_messages_get_fails:
  assumes "mid \<in> set mids" and "get_message svc mid = Inl e"
  shows "\<exists>e'. fst (process_messages svc decode clk i db acc mids) = Inl e'"
  using assms
proof (induction mids arbitrary: i db acc)
  case Nil
  then show ?case by simp
next
  case (Cons m ms)
  show ?case
  proof (cases "get_message svc m")
    case (Inl a)
    then show ?thesis by simp
  next
    case (Inr msg)
    note g = this
    show ?thesis
    proof (cases "parse_message decode m msg")
      case (Inl a)
      with g show ?thesis by simp
    next
      case (Inr p)
      obtain info bdy where p: "p = (info, bdy)" by (cases p)
      from g Cons.prems have "m \<noteq> mid" by auto
      with Cons.prems have "mid \<in> set ms" by simp
      from Cons.IH[OF this Cons.prems(2)] g Inr p show ?thesis by simp
    qed
  qed
qed

lemma process_messages_parse_fails:
  assumes "mid \<in> set mids" and "get_message svc mid = Inr msg"
    and "parse_message decode mid msg = Inl e"
  shows "\<exists>e'. fst (process_messages svc decode clk i db acc mids) = Inl e'"
  using assms
proof (induction mids arbitrary: i db acc)
  case Nil
  then show ?case by simp
next
  case (Cons m ms)
  show ?case
  proof (cases "get_message svc m")
    case (Inl a)
    then show ?thesis by simp
  next
    case (Inr msg')
    note g = this
    show ?thesis
    proof (cases "parse_message decode m msg'")
      case (Inl a)
      with g show ?thesis by simp
    next
      case (Inr p)
      obtain info bdy where p: "p = (info, bdy)" by (cases p)
      from g Inr Cons.prems have "m \<noteq> mid" by auto
      with Cons.prems have "mid \<in> set ms" by simp
      from Cons.IH[OF this Cons.prems(2,3)] g Inr p show ?thesis by simp
    qed
  qed
qed

lemma fetch_recent_emails_try_fails:
  assumes "connect_service gi setup_result = Some svc"
    and "fst (fetch_try svc decode clk (gi_db gi) max_results query) = Inl e"
  shows "fst (fetch_recent_emails gi setup_result decode clk max_results query) = []"
proof -
  obtain res db' where r: "fetch_try svc decode clk (gi_db gi) max_results query = (res, db')"
    by (cases "fetch_try svc decode clk (gi_db gi) max_results query")
  with assms(2) have "res = Inl e" by simp
  with r assms(1) show ?thesis by (simp add: fetch_recent_emails_def)
qed

text \<open>
  Claim C8. \<^verbatim>\<open>fetch_recent_emails\<close> returns the empty list whenever the fetch fails:
  when no service is held and \<^verbatim>\<open>setup_gmail_api\<close> fails; when the list call raises; when the
  get call raises for any listed message; when reading or decoding any listed message
  raises; and in general whenever an exception leaves the \<^verbatim>\<open>try\<close> block. When the list
  call succeeds with no messages the result is the empty list as well, so the caller sees
  the same value in both situations.
\<close>

theorem fetch_recent_emails_failure_empty:
  "(connect_service gi setup_result = None \<longrightarrow>
      fst (fetch_recent_emails gi setup_result decode clk max_results query) = [])
   \<and> (connect_service gi setup_result = Some svc \<and> list_messages svc query max_results = Inl e \<longrightarrow>
      fst (fetch_recent_emails gi setup_result decode clk max_results query) = [])
   \<and> (connect_service gi setup_result = Some svc \<and> list_messages svc query max_results = Inr (Some mids)
        \<and> mid \<in> set mids \<and> get_message svc mid = Inl e \<longrightarrow>
      fst (fetch_recent_emails gi setup_result decode clk max_results query) = [])
   \<and> (connect_service gi setup_result = Some svc \<and> list_messages svc query max_results = Inr (Some mids)
        \<and> mid \<in> set mids \<and> get_message svc mid = Inr msg \<and> parse_message decode mid msg = Inl e \<longrightarrow>
      fst (fetch_recent_emails gi setup_result decode clk max_results query) = [])
   \<and> (connect_service gi setup_result = Some svc
        \<and> fst (fetch_try svc decode clk (gi_db gi) max_results query) = Inl e \<longrightarrow>
      fst (fetch_recent_emails gi setup_result decode clk max_results query) = [])
   \<and> (connect_service gi setup_result = Some svc
        \<and> list_messages svc query max_results \<in> {Inr None, Inr (Some [])} \<longrightarrow>
      fetch_recent_emails gi setup_result decode clk max_results query
        = ([], gi\<lparr>gi_service := Some svc\<rparr>))"
proof (intro conjI impI)
  assume "connect_service gi setup_result = None"
  then show "fst (fetch_recent_emails gi setup_result decode clk max_results query) = []"
    by (simp add: fetch_recent_emails_def)
next
  assume a: "connect_service gi setup_result = Some svc \<and> list_messages svc query max_results = Inl e"
  then have "fst (fetch_try svc decode clk (gi_db gi) max_results query) = Inl e"
    by (simp add: fetch_try_def)
  with a show "fst (fetch_recent_emails gi setup_result decode clk max_results query) = []"
    using fetch_recent_emails_try_fails by blast
next
  assume a: "connect_service gi setup_result = Some svc
       \<and> list_messages svc query max_results = Inr (Some mids)
       \<and> mid \<in> set mids \<and> get_message svc mid = Inl e"
  then obtain e' where "fst (process_messages svc decode clk 0 (gi_db gi) [] mids) = Inl e'"
    using process_messages_get_fails by blast
  with a have "fst (fetch_try svc decode clk (gi_db gi) max_results query) = Inl e'"
    by (simp add: fetch_try_def)
  with a show "fst (fetch_recent_emails gi setup_result decode clk max_results query) = []"
    using fetch_recent_emails_try_fails by blast
next
  assume a: "connect_service gi setup_result = Some svc
       \<and> list_messages svc query max_results = Inr (Some mids)
       \<and> mid \<in> set mids \<and> get_message svc mid = Inr msg \<and> parse_message decode mid msg = Inl e"
  then obtain e' where "fst (process_messages svc decode clk 0 (gi_db gi) [] mids) = Inl e'"
    using process_messages_parse_fails by blast
  with a have "fst (fetch_try svc decode clk (gi_db gi) max_results query) = Inl e'"
    by (simp add: fetch_try_def)
  with a show "fst (fetch_recent_emails gi setup_result decode clk max_results query) = []"
    using fetch_recent_emails_try_fails by blast
next
  assume "connect_service gi setup_result = Some svc
       \<and> fst (fetch_try svc decode clk (gi_db gi) max_results query) = Inl e"
  then show "fst (fetch_recent_emails gi setup_result decode clk max_results query) = []"
    using fetch_recent_emails_try_fails by blast
next
  assume "connect_service gi setup_result = Some svc
        \<and> list_messages svc query max_results \<in> {Inr None, Inr (Some [])}"
  then show "fetch_recent_emails gi setup_result decode clk max_results query
        = ([], gi\<lparr>gi_service := Some svc\<rparr>)"
    by (auto simp: fetch_recent_emails_def fetch_try_def)
qed

theorem fetch_recent_emails_failure_empty_witness:
  "fst (fetch_recent_emails \<lparr>gi_db = init_database, gi_service = None\<rparr> None Inr (\<lambda>i. i) 10
          ''is:unread'') = []
   \<and> fst (fetch_recent_emails
        \<lparr>gi_db = init_database,
          gi_service = Some \<lparr>list_messages = (\<lambda>q n. Inl ServiceError),
                             get_message = (\<lambda>m. Inl ServiceError)\<rparr>\<rparr>
        None Inr (\<lambda>i. i) 10 ''is:unread'') = []
   \<and> fst (fetch_recent_emails \<lparr>gi_db = init_database, gi_service = None\<rparr>
        (Some \<lparr>list_messages = (\<lambda>q n. Inr (Some [''m1'', ''m2''])),
               get_message = (\<lambda>m. if m = ''m1''
                  then Inr \<lparr>msg_payload = Some \<lparr>pl_headers = Some [(''From'', ''a@b.com'')],
                                 pl_parts = None, pl_mimeType = Some ''text/plain'',
                                 pl_data = Some ''hello''\<rparr>,
                             msg_snippet = Some ''hello'', msg_labelIds = None\<rparr>
                  else Inl ServiceError)\<rparr>)
        Inr (\<lambda>i. i) 10 ''is:unread'') = []"
proof -
  let ?svc = "\<lparr>list_messages = (\<lambda>q n. Inl ServiceError) :: string \<Rightarrow> nat \<Rightarrow> py_error + string list option,
               get_message = (\<lambda>m. Inl ServiceError) :: string \<Rightarrow> py_error + gmail_message\<rparr>"
  let ?gi = "\<lparr>gi_db = init_database, gi_service = Some ?svc\<rparr>"
  let ?idle = "\<lparr>gi_db = init_database, gi_service = None\<rparr>"
  let ?flaky = "\<lparr>list_messages = (\<lambda>q n. Inr (Some [''m1'', ''m2''])),
               get_message = (\<lambda>m. if m = ''m1''
                  then Inr \<lparr>msg_payload = Some \<lparr>pl_headers = Some [(''From'', ''a@b.com'')],
                                 pl_parts = None, pl_mimeType = Some ''text/plain'',
                                 pl_data = Some ''hello''\<rparr>,
                             msg_snippet = Some ''hello'', msg_labelIds = None\<rparr>
                  else Inl ServiceError)\<rparr>"
  have a: "connect_service ?idle None = None" by (simp add: connect_service_def)
  have c: "connect_service ?gi None = Some ?svc" by (simp add: connect_service_def)
  have l: "list_messages ?svc ''is:unread'' 10 = Inl ServiceError" by simp
  have c2: "connect_service ?idle (Some ?flaky) = Some ?flaky" by (simp add: connect_service_def)
  have l2: "list_messages ?flaky ''is:unread'' 10 = Inr (Some [''m1'', ''m2''])" by simp
  have g2: "get_message ?flaky ''m2'' = Inl ServiceError" by simp
  have m2: "''m2'' \<in> set [''m1'', ''m2'']" by simp
  have r1: "fst (fetch_recent_emails ?idle None Inr (\<lambda>i. i) 10 ''is:unread'') = []"
    using fetch_recent_emails_failure_empty[where gi = ?idle and setup_result = None
      and query = "''is:unread''" and max_results = 10 and decode = Inr and clk = "\<lambda>i. i"] a
    by blast
  have r2: "fst (fetch_recent_emails ?gi None Inr (\<lambda>i. i) 10 ''is:unread'') = []"
    using fetch_recent_emails_failure_empty[where gi = ?gi and setup_result = None and svc = ?svc
      and query = "''is:unread''" and max_results = 10 and e = ServiceError and decode = Inr
      and clk = "\<lambda>i. i"] c l
    by blast
  have r3: "fst (fetch_recent_emails ?idle (Some ?flaky) Inr (\<lambda>i. i) 10 ''is:unread'') = []"
    using fetch_recent_emails_failure_empty[where gi = ?idle and setup_result = "Some ?flaky"
      and svc = ?flaky and query = "''is:unread''" and max_results = 10 and e = ServiceError
      and decode = Inr and clk = "\<lambda>i. i" and mids = "[''m1'', ''m2'']" and mid = "''m2''"]
      c2 l2 g2 m2
    by blast
  from r1 r2 r3 show ?thesis by blast
qed

section \<open>Properties of the topic suggestion\<close>

text \<open>
  With an object that has no attribute \<^verbatim>\<open>db\<close>, as every instance of
  \<^verbatim>\<open>PersonalAssistantDB\<close>, the call raises before the query.
\<close>

lemma suggest_study_topic_without_connector:
  "suggest_study_topic False db today r subj level = Inl AttributeError"
  by (simp add: suggest_study_topic_def)








section \<open>The stored email body\<close>

text \<open>
  Claim C4 at a message whose plain-text body has 1001 characters: the dictionary that
  \<^verbatim>\<open>fetch_recent_emails\<close> returns holds the first 1000 characters, and the row that
  \<^verbatim>\<open>add_email\<close> stores holds all 1001, since the call passes \<^verbatim>\<open>body\<close> and not
  \<^verbatim>\<open>email_info['body']\<close>.
\<close>

theorem fetch_recent_emails_stores_full_body:
  "(let svc = \<lparr>list_messages = (\<lambda>q n. Inr (Some [''m1''])),
               get_message = (\<lambda>m. Inr
                 \<lparr>msg_payload = Some
                    \<lparr>pl_headers = Some [(''From'', ''a@b.com''), (''Subject'', ''Hi'')],
                     pl_parts = None, pl_mimeType = Some ''text/plain'',
                     pl_data = Some (replicate 1001 (CHR ''x''))\<rparr>,
                  msg_snippet = Some ''xxx'', msg_labelIds = Some [''INBOX'']\<rparr>)\<rparr>;
        res = fetch_recent_emails \<lparr>gi_db = init_database, gi_service = Some svc\<rparr> None Inr
                (\<lambda>i. i) 10 ''is:unread''
    in map (\<lambda>info. length (body info)) (fst res) = [1000]
       \<and> map (\<lambda>row. map_option length (e_body row)) (emails (gi_db (snd res))) = [Some 1001])"
  by (simp add: Let_def fetch_recent_emails_def connect_service_def fetch_try_def
      parse_message_def extract_email_body_def header_value_def add_email_def init_database_def)

section \<open>Properties of the ranking\<close>

lemma notifications_create_notification:
  "notifications (snd (create_notification db now ty ti m p sf)) =
     notifications db @
       [\<lparr>n_id = next_rowid (map n_id (notifications db)), n_type = ty, n_title = ti,
         n_message = m, n_priority = p, n_is_read = False, n_scheduled_for = sf,
         n_created_at = now, n_action_required = False, n_metadata = None\<rparr>]"
  by (simp add: create_notification_def Let_def)

lemma priority_text_order:
  "''high'' < ''low''" "''low'' < ''medium''" "''high'' < ''medium''"
  by simp_all

lemma rank_values:
  "priority_rank ''high'' = 2" "priority_rank ''medium'' = 3" "priority_rank ''low'' = 4"
  by (simp_all add: priority_rank_def priority_order_def)

lemma display_four:
  assumes "n_priority a = ''low''" "n_priority b = ''high''" "n_priority c = ''medium''"
    "n_priority d = ''high''" "n_created_at b < n_created_at d"
    "\<not> n_is_read a" "\<not> n_is_read b" "\<not> n_is_read c" "\<not> n_is_read d"
    "\<forall>n\<in>set old. n_is_read n"
    "notifications db = old @ [a, b, c, d]"
  shows "get_pending_notifications db = [c, a, d, b]"
    and "display_notifications db = [d, b, c, a]"
proof -
  have f: "filter (\<lambda>n. \<not> n_is_read n) (notifications db) = [a, b, c, d]"
    using assms by (simp add: filter_empty_conv)
  show p: "get_pending_notifications db = [c, a, d, b]"
    using assms(1-5) priority_text_order
    by (simp add: get_pending_notifications_def f order_by_desc_def less_eq_prod_def less_prod_def)
  show "display_notifications db = [d, b, c, a]"
    using assms(1-4) by (simp add: display_notifications_def p rank_values)
qed

text \<open>
  Claim C2, as the code has it. Starting from a store whose notifications are all read,
  four notifications are created with priorities low, high, medium, high, in that order,
  the second high one with a later creation timestamp than the first. The displayed
  sequence is then: the second-inserted high, the first-inserted high, the medium, the
  low one. Within equal rank the newest comes first, because the query orders by
  \<^verbatim>\<open>created_at DESC\<close> and the sort by rank is stable.
\<close>

theorem display_notifications_newest_high_first:
  assumes "\<forall>n\<in>set (notifications db0). n_is_read n" and "t2 < t4"
  shows
    "(let db1 = snd (create_notification db0 t1 ty1 ti1 m1 ''low'' s1);
          db2 = snd (create_notification db1 t2 ty2 ti2 m2 ''high'' s2);
          db3 = snd (create_notification db2 t3 ty3 ti3 m3 ''medium'' s3);
          db4 = snd (create_notification db3 t4 ty4 ti4 m4 ''high'' s4);
          k = length (notifications db0)
      in display_notifications db4 = map (\<lambda>j. notifications db4 ! (k + j)) [3, 1, 2, 0]
         \<and> map (\<lambda>n. (n_priority n, n_created_at n, n_title n)) (display_notifications db4)
             = [(''high'', t4, ti4), (''high'', t2, ti2), (''medium'', t3, ti3), (''low'', t1, ti1)])"
proof -
  define db1 where "db1 = snd (create_notification db0 t1 ty1 ti1 m1 ''low'' s1)"
  define db2 where "db2 = snd (create_notification db1 t2 ty2 ti2 m2 ''high'' s2)"
  define db3 where "db3 = snd (create_notification db2 t3 ty3 ti3 m3 ''medium'' s3)"
  define db4 where "db4 = snd (create_notification db3 t4 ty4 ti4 m4 ''high'' s4)"
  define a where "a = \<lparr>n_id = next_rowid (map n_id (notifications db0)), n_type = ty1, n_title = ti1,
         n_message = m1, n_priority = ''low'', n_is_read = False, n_scheduled_for = s1,
         n_created_at = t1, n_action_required = False, n_metadata = None\<rparr>"
  define b where "b = \<lparr>n_id = next_rowid (map n_id (notifications db1)), n_type = ty2, n_title = ti2,
         n_message = m2, n_priority = ''high'', n_is_read = False, n_scheduled_for = s2,
         n_created_at = t2, n_action_required = False, n_metadata = None\<rparr>"
  define c where "c = \<lparr>n_id = next_rowid (map n_id (notifications db2)), n_type = ty3, n_title = ti3,
         n_message = m3, n_priority = ''medium'', n_is_read = False, n_scheduled_for = s3,
         n_created_at = t3, n_action_required = False, n_metadata = None\<rparr>"
  define d where "d = \<lparr>n_id = next_rowid (map n_id (notifications db3)), n_type = ty4, n_title = ti4,
         n_message = m4, n_priority = ''high'', n_is_read = False, n_scheduled_for = s4,
         n_created_at = t4, n_action_required = False, n_metadata = None\<rparr>"
  have n: "notifications db4 = notifications db0 @ [a, b, c, d]"
    by (simp add: db4_def db3_def db2_def db1_def a_def b_def c_def d_def
        notifications_create_notification)
  have disp: "display_notifications db4 = [d, b, c, a]"
    by (rule display_four(2)[OF _ _ _ _ _ _ _ _ _ assms(1) n])
       (simp_all add: a_def b_def c_def d_def assms(2))
  have idx: "map (\<lambda>j. notifications db4 ! (length (notifications db0) + j)) [3, 1, 2, 0] = [d, b, c, a]"
    by (simp add: n nth_append)
  have vals: "map (\<lambda>n. (n_priority n, n_created_at n, n_title n)) [d, b, c, a]
        = [(''high'', t4, ti4), (''high'', t2, ti2), (''medium'', t3, ti3), (''low'', t1, ti1)]"
    by (simp add: a_def b_def c_def d_def)
  from disp idx vals show ?thesis
    unfolding Let_def db4_def[symmetric] db3_def[symmetric] db2_def[symmetric] db1_def[symmetric]
    by simp
qed

theorem display_notifications_newest_high_first_witness:
  "(2::nat) < 4
   \<and> map n_id (display_notifications
       (snd (create_notification (snd (create_notification (snd (create_notification
         (snd (create_notification init_database 1 ''t'' ''first'' ''m'' ''low'' None))
          2 ''t'' ''second'' ''m'' ''high'' None)) 3 ''t'' ''third'' ''m'' ''medium'' None))
          4 ''t'' ''fourth'' ''m'' ''high'' None)))
     = [4, 2, 3, 1]"
proof -
  have h: "\<forall>n\<in>set (notifications init_database). n_is_read n" by (simp add: init_database_def)
  have l: "(2::nat) < 4" by simp
  have "display_notifications
       (snd (create_notification (snd (create_notification (snd (create_notification
         (snd (create_notification init_database 1 ''t'' ''first'' ''m'' ''low'' None))
          2 ''t'' ''second'' ''m'' ''high'' None)) 3 ''t'' ''third'' ''m'' ''medium'' None))
          4 ''t'' ''fourth'' ''m'' ''high'' None))
    = map (\<lambda>j. notifications
       (snd (create_notification (snd (create_notification (snd (create_notification
         (snd (create_notification init_database 1 ''t'' ''first'' ''m'' ''low'' None))
          2 ''t'' ''second'' ''m'' ''high'' None)) 3 ''t'' ''third'' ''m'' ''medium'' None))
          4 ''t'' ''fourth'' ''m'' ''high'' None)) ! (length (notifications init_database) + j))
        [3, 1, 2, 0]"
    using display_notifications_newest_high_first[OF h l, of 1 "''t''" "''first''" "''m''" None
        "''t''" "''second''" "''m''" None 3 "''t''" "''third''" "''m''" None
        "''t''" "''fourth''" "''m''" None]
    by (simp add: Let_def)
  then show ?thesis
    by (simp add: create_notification_def init_database_def next_rowid_def)
qed

text \<open>
  Four notifications created at the seconds 1, 2, 3, 4 in a fresh database get the ids
  1 (low), 2 (high), 3 (medium), 4 (high). The display order is 4, 2, 3, 1, and not the
  insertion order 2, 4 of the two high ones.
\<close>

theorem display_notifications_insertion_order_counterexample:
  "map n_id (display_notifications
       (snd (create_notification (snd (create_notification (snd (create_notification
         (snd (create_notification init_database 1 ''t'' ''first'' ''m'' ''low'' None))
          2 ''t'' ''second'' ''m'' ''high'' None)) 3 ''t'' ''third'' ''m'' ''medium'' None))
          4 ''t'' ''fourth'' ''m'' ''high'' None)))
     = [4, 2, 3, 1]
   \<and> map n_id (display_notifications
       (snd (create_notification (snd (create_notification (snd (create_notification
         (snd (create_notification init_database 1 ''t'' ''first'' ''m'' ''low'' None))
          2 ''t'' ''second'' ''m'' ''high'' None)) 3 ''t'' ''third'' ''m'' ''medium'' None))
          4 ''t'' ''fourth'' ''m'' ''high'' None)))
     \<noteq> [2, 4, 3, 1]"
  by (simp add: display_notifications_def get_pending_notifications_def order_by_desc_def
      create_notification_def init_database_def next_rowid_def priority_rank_def
      priority_order_def Let_def)

end
